theory Spec2Isabelle
  imports Main "HOL-Library.Word"
begin

unbundle bit_operations_syntax

section \<open>The picture processing unit of neschan (src/lib/inc/nes_ppu.h)\<close>

text \<open>
  The header defines the class \<open>nes_ppu\<close> with its register operations inline. The
  model below follows it member by member: \<open>uint8_t\<close> is \<open>8 word\<close>, \<open>uint16_t\<close> is
  \<open>16 word\<close>, a member function that mutates the object takes the state and returns
  the new one, and a member function that reads and mutates returns the pair of the
  value read and the new state.
\<close>

type_synonym u8 = "8 word"
type_synonym u16 = "16 word"

subsection \<open>Constants\<close>

definition PPU_VRAM_SIZE :: nat where
  "PPU_VRAM_SIZE = 0x4000"

definition PPU_OAM_SIZE :: nat where
  "PPU_OAM_SIZE = 0x100"

definition PPUCTRL_BASE_NAME_TABLE_ADDR_MASK :: u8 where
  "PPUCTRL_BASE_NAME_TABLE_ADDR_MASK = 0x3"

definition PPUCTRL_VRAM_ADDR_MASK :: u8 where
  "PPUCTRL_VRAM_ADDR_MASK = 0x4"

definition PPUCTRL_BACKGROUND_PATTERN_TABLE_ADDRESS_MASK :: u8 where
  "PPUCTRL_BACKGROUND_PATTERN_TABLE_ADDRESS_MASK = 0x10"

definition PPUCTRL_SPRITE_SIZE_MASK :: u8 where
  "PPUCTRL_SPRITE_SIZE_MASK = 0x20"

definition PPUCTRL_NMI_AT_VBLANK_MASK :: u8 where
  "PPUCTRL_NMI_AT_VBLANK_MASK = 0x80"

definition PPUMASK_GRAYSCALE :: u8 where
  "PPUMASK_GRAYSCALE = 0x1"

definition PPUMASK_SHOW_BACKGROUND :: u8 where
  "PPUMASK_SHOW_BACKGROUND = 0x8"

definition PPUMASK_SHOW_SPRITES :: u8 where
  "PPUMASK_SHOW_SPRITES = 0x10"

definition PPUSTATUS_LATCH_MASK :: u8 where
  "PPUSTATUS_LATCH_MASK = 0x1f"

definition PPUSTATUS_SPRITE_OVERFLOW :: u8 where
  "PPUSTATUS_SPRITE_OVERFLOW = 0x20"

definition PPUSTATUS_SPRITE_0_HIT :: u8 where
  "PPUSTATUS_SPRITE_0_HIT = 0x40"

definition PPUSTATUS_VBLANK_START :: u8 where
  "PPUSTATUS_VBLANK_START = 0x80"

subsection \<open>The state of the component\<close>

text \<open>
  One field per data member of \<open>nes_ppu\<close>, in the order of the class. The two heap
  arrays are functions on their indices: \<open>_vram\<close> has \<open>PPU_VRAM_SIZE\<close> bytes and is
  indexed by a 16-bit value, so an access can fall outside it and every access is
  checked against the size where it happens; \<open>_oam\<close> has \<open>PPU_OAM_SIZE = 256\<close>
  bytes and is only ever indexed by the 8-bit \<open>_oam_addr\<close>, so it is a function on
  \<open>u8\<close>. The pointer \<open>_system\<close> to the owning system is not part of the register
  state and is left out.

  The cycle counters \<open>_master_cycle\<close> and \<open>_scanline_cycle\<close> have types declared
  in nes_cycle.h, which is not among the sources; they are integers here (see
  \<open>is_ready\<close>).
\<close>

record nes_ppu =
  vram :: "nat \<Rightarrow> u8"
  oam :: "u8 \<Rightarrow> u8"
  name_tbl_addr :: u16
  pattern_tbl_addr :: u16
  ppu_addr_inc :: u16
  vblank_nmi :: bool
  use_8x16_sprite :: bool
  show_bg :: bool
  show_sprites :: bool
  gray_scale_mode :: bool
  latch :: u8
  sprite_overflow :: bool
  vblank_started :: bool
  sprite_0_hit :: bool
  oam_addr :: u8
  addr_latch :: u8
  scroll_x :: u8
  scroll_y :: u8
  ppu_addr :: u16
  master_cycle :: int
  scanline_cycle :: int
  cur_scanline :: int
  frame_count :: int
  protect_register :: bool
  stop_after_frame :: int
  tile_index :: u8
  tile_palette_bit32 :: u8
  tile_addr :: u16
  bitplane0 :: u8
  frame_buffer :: "nat \<Rightarrow> u8"
  pixel_cycle :: "nat \<Rightarrow> u8"

subsection \<open>Address translation and the video memory\<close>

text \<open>
  \<open>redirect_addr\<close> rewrites its reference argument in place; the model returns the
  rewritten address. The comparisons and the subtraction are on values promoted to
  \<open>int\<close> in C++; the first branch subtracts only from addresses of at least
  \<open>0x3000\<close>, so the result is the same on 16-bit words.
\<close>

definition redirect_addr :: "u16 \<Rightarrow> u16" where
  "redirect_addr addr =
     (if 0x3000 \<le> addr \<and> addr < 0x3f00 then addr - 0x1000
      else if addr AND 0x3f00 = 0x3f00 then
        (let addr1 = addr AND 0xff1f
         in if addr1 AND 0x10 = 0x10 then addr1 AND 0xff0f else addr1)
      else addr)"

text \<open>
  \<open>read_byte\<close> and \<open>write_byte\<close> index \<open>_vram\<close> with the translated address and
  no check. An index of \<open>PPU_VRAM_SIZE\<close> or more is outside the allocation, where
  C++ gives the access no meaning: the model returns \<open>None\<close> there.
\<close>

definition read_byte :: "u16 \<Rightarrow> nes_ppu \<Rightarrow> u8 option" where
  "read_byte addr s =
     (let a = redirect_addr addr
      in if unat a < PPU_VRAM_SIZE then Some (vram s (unat a)) else None)"

definition write_byte :: "u16 \<Rightarrow> u8 \<Rightarrow> nes_ppu \<Rightarrow> nes_ppu option" where
  "write_byte addr val s =
     (let a = redirect_addr addr
      in if unat a < PPU_VRAM_SIZE then Some (s\<lparr>vram := (vram s)(unat a := val)\<rparr>)
         else None)"

subsection \<open>Readiness and protection\<close>

text \<open>
  Modelled from the spec: the types \<open>nes_cycle_t\<close> of \<open>_master_cycle\<close> and
  \<open>nes_ppu_cycle_t\<close> of the threshold are declared in nes_cycle.h, which is not
  among the sources. The spec reads the comparison as "master cycle count greater
  than 29658", so the counter is an integer in the unit of that comparison.
\<close>

definition is_ready :: "nes_ppu \<Rightarrow> bool" where
  "is_ready s = (master_cycle s > 29658)"

definition is_render_off :: "nes_ppu \<Rightarrow> bool" where
  "is_render_off s = (\<not> show_bg s \<and> \<not> show_sprites s)"

definition set_protect :: "bool \<Rightarrow> nes_ppu \<Rightarrow> nes_ppu" where
  "set_protect b s = s\<lparr>protect_register := b\<rparr>"

subsection \<open>The registers\<close>

definition write_latch :: "u8 \<Rightarrow> nes_ppu \<Rightarrow> nes_ppu" where
  "write_latch val s = (if protect_register s then s else s\<lparr>latch := val\<rparr>)"

definition read_latch :: "nes_ppu \<Rightarrow> u8" where
  "read_latch s = latch s"

text \<open>
  A \<open>bool\<close> member assigned from \<open>val & MASK\<close> is true when the masked value is not
  zero. The name-table address \<open>0x2000 + bits * 0x400\<close> and the shifted pattern-table
  bit are at most \<open>0x2c00\<close> and \<open>0x1000\<close>, so the \<open>int\<close> arithmetic of C++ and the
  16-bit arithmetic here agree.
\<close>

definition write_PPUCTRL :: "u8 \<Rightarrow> nes_ppu \<Rightarrow> nes_ppu" where
  "write_PPUCTRL val s =
     (if \<not> is_ready s then s
      else
        let s1 = write_latch val s;
            name_table_addr_bit = val AND PPUCTRL_BASE_NAME_TABLE_ADDR_MASK
        in s1\<lparr>name_tbl_addr := 0x2000 + ucast name_table_addr_bit * 0x400,
              pattern_tbl_addr :=
                push_bit 8 (ucast (val AND PPUCTRL_BACKGROUND_PATTERN_TABLE_ADDRESS_MASK)),
              use_8x16_sprite := (val AND PPUCTRL_SPRITE_SIZE_MASK \<noteq> 0),
              ppu_addr_inc := (if val AND PPUCTRL_VRAM_ADDR_MASK \<noteq> 0 then 0x20 else 1),
              vblank_nmi := (val AND PPUCTRL_NMI_AT_VBLANK_MASK \<noteq> 0)\<rparr>)"

definition write_PPUMASK :: "u8 \<Rightarrow> nes_ppu \<Rightarrow> nes_ppu" where
  "write_PPUMASK val s =
     (if \<not> is_ready s then s
      else
        let s1 = write_latch val s
        in s1\<lparr>show_bg := (val AND PPUMASK_SHOW_BACKGROUND \<noteq> 0),
              show_sprites := (val AND PPUMASK_SHOW_SPRITES \<noteq> 0),
              gray_scale_mode := (val AND PPUMASK_GRAYSCALE \<noteq> 0)\<rparr>)"

definition read_PPUSTATUS :: "nes_ppu \<Rightarrow> u8 \<times> nes_ppu" where
  "read_PPUSTATUS s =
     (let status0 = latch s AND PPUSTATUS_LATCH_MASK;
          status1 = (if sprite_0_hit s then status0 OR PPUSTATUS_SPRITE_0_HIT else status0);
          status2 = (if sprite_overflow s then status1 OR PPUSTATUS_SPRITE_OVERFLOW
                     else status1);
          status = (if vblank_started s then status2 OR PPUSTATUS_VBLANK_START else status2);
          s1 = (if \<not> protect_register s then s\<lparr>vblank_started := False, addr_latch := 0\<rparr>
                else s)
      in (status, write_latch status s1))"

definition write_OAMADDR :: "u8 \<Rightarrow> nes_ppu \<Rightarrow> nes_ppu" where
  "write_OAMADDR val s = (write_latch val s)\<lparr>oam_addr := val\<rparr>"

definition write_OAMDATA :: "u8 \<Rightarrow> nes_ppu \<Rightarrow> nes_ppu" where
  "write_OAMDATA val s =
     (let s1 = write_latch val s;
          s2 = s1\<lparr>oam := (oam s1)(oam_addr s1 := val)\<rparr>
      in s2\<lparr>oam_addr := oam_addr s2 + 1\<rparr>)"

definition read_OAMDATA :: "nes_ppu \<Rightarrow> u8 \<times> nes_ppu" where
  "read_OAMDATA s = (let val = oam s (oam_addr s) in (val, write_latch val s))"

text \<open>
  \<open>_addr_latch = (_addr_latch + 1) % 2\<close> is computed on \<open>int\<close> and stored back into
  the 8-bit member.
\<close>

definition next_addr_latch :: "u8 \<Rightarrow> u8" where
  "next_addr_latch l = word_of_int ((uint l + 1) mod 2)"

definition write_PPUSCROLL :: "u8 \<Rightarrow> nes_ppu \<Rightarrow> nes_ppu" where
  "write_PPUSCROLL val s =
     (if \<not> is_ready s then s
      else
        let s1 = write_latch val s;
            s2 = s1\<lparr>addr_latch := next_addr_latch (addr_latch s1)\<rparr>
        in if addr_latch s2 = 1 then s2\<lparr>scroll_x := val\<rparr> else s2\<lparr>scroll_y := val\<rparr>)"

definition write_PPUADDR :: "u8 \<Rightarrow> nes_ppu \<Rightarrow> nes_ppu" where
  "write_PPUADDR val s =
     (let s1 = write_latch val s;
          s2 = s1\<lparr>addr_latch := next_addr_latch (addr_latch s1)\<rparr>
      in if addr_latch s2 = 1
         then s2\<lparr>ppu_addr := (ppu_addr s2 AND 0x00ff) OR push_bit 8 (ucast val)\<rparr>
         else s2\<lparr>ppu_addr := (ppu_addr s2 AND 0xff00) OR ucast val\<rparr>)"

text \<open>
  The two data-port operations go through \<open>write_byte\<close> and \<open>read_byte\<close> and are
  \<open>None\<close> where those are.
\<close>

definition write_PPUDATA :: "u8 \<Rightarrow> nes_ppu \<Rightarrow> nes_ppu option" where
  "write_PPUDATA val s =
     (let s1 = write_latch val s
      in case write_byte (ppu_addr s1) val s1 of
           None \<Rightarrow> None
         | Some s2 \<Rightarrow> Some (s2\<lparr>ppu_addr := ppu_addr s2 + ppu_addr_inc s2\<rparr>))"

definition read_PPUDATA :: "nes_ppu \<Rightarrow> (u8 \<times> nes_ppu) option" where
  "read_PPUDATA s =
     (case read_byte (ppu_addr s) s of
        None \<Rightarrow> None
      | Some val \<Rightarrow>
          let s1 = (if \<not> protect_register s
                    then s\<lparr>ppu_addr := ppu_addr s + ppu_addr_inc s\<rparr> else s)
          in Some (val, write_latch val s1))"

text \<open>
  Modelled from the spec: \<open>oam_dma\<close> is declared in the header and defined in
  nes_ppu.cpp, which is not among the sources. The spec has it copy the 256 bytes of
  an external memory page, the source addresses \<open>addr .. addr + 0xFF\<close>, into the
  OAM entries \<open>0 .. 255\<close> in this order, with the OAM address afterwards at the
  value it had before the transfer, and has the extra CPU cycles accounted for outside
  the PPU. It names no readiness gate for the transfer. The memory of the bus
  collaborator is the parameter \<open>mem\<close>.
\<close>

definition oam_dma :: "(u16 \<Rightarrow> u8) \<Rightarrow> u16 \<Rightarrow> nes_ppu \<Rightarrow> nes_ppu" where
  "oam_dma mem addr s = s\<lparr>oam := (\<lambda>i. mem (addr + ucast i))\<rparr>"

text \<open>
  \<open>write_OAMDMA\<close> is in the header: it hands the written byte, as the high byte of
  an address, to \<open>oam_dma\<close>.
\<close>

definition write_OAMDMA :: "(u16 \<Rightarrow> u8) \<Rightarrow> u8 \<Rightarrow> nes_ppu \<Rightarrow> nes_ppu" where
  "write_OAMDMA mem val s = oam_dma mem (push_bit 8 (ucast val)) s"

definition get_palette_color :: "bool \<Rightarrow> u8 \<Rightarrow> nes_ppu \<Rightarrow> u8 option" where
  "get_palette_color is_background palette_index_4_bit s =
     (if palette_index_4_bit = 0 then read_byte 0x3f00 s
      else
        let palette_addr :: u16 =
              (if is_background then 0x3f00 else 0x3f10) OR ucast palette_index_4_bit
        in read_byte 0x3f00 s)"

subsection \<open>A concrete state\<close>

text \<open>
  The constructor allocates both arrays with \<open>make_unique\<close>, which zeroes them, and
  initialises no other member. \<open>zeroed_ppu\<close> is that object with every scalar member
  zero or false; the properties below are evaluated on it and on updates of it.
\<close>

definition zeroed_ppu :: nes_ppu where
  "zeroed_ppu =
     \<lparr>vram = (\<lambda>_. 0), oam = (\<lambda>_. 0), name_tbl_addr = 0, pattern_tbl_addr = 0,
      ppu_addr_inc = 0, vblank_nmi = False, use_8x16_sprite = False, show_bg = False,
      show_sprites = False, gray_scale_mode = False, latch = 0, sprite_overflow = False,
      vblank_started = False, sprite_0_hit = False, oam_addr = 0, addr_latch = 0,
      scroll_x = 0, scroll_y = 0, ppu_addr = 0, master_cycle = 0, scanline_cycle = 0,
      cur_scanline = 0, frame_count = 0, protect_register = False, stop_after_frame = 0,
      tile_index = 0, tile_palette_bit32 = 0, tile_addr = 0, bitplane0 = 0,
      frame_buffer = (\<lambda>_. 0), pixel_cycle = (\<lambda>_. 0)\<rparr>"

section \<open>Properties of the address translation\<close>

lemma and_3f00_not_below:
  fixes a :: u16
  assumes "a AND 0x3f00 = 0x3f00"
  shows "\<not> a < 0x3f00"
  using assms word_and_le2 [of a "0x3f00"] by auto

lemma name_table_mirror_target:
  fixes a :: u16
  assumes lo: "0x3000 \<le> a" and hi: "a < 0x3f00"
  shows "0x2000 \<le> a - 0x1000" and "a - 0x1000 < 0x2f00"
proof -
  have le: "(0x1000 :: u16) \<le> a"
    using lo by (simp add: word_le_nat_alt)
  have u: "unat (a - 0x1000) = unat a - 0x1000"
    using unat_sub [OF le] by simp
  show "0x2000 \<le> a - 0x1000"
    using lo by (simp add: word_le_nat_alt u)
  show "a - 0x1000 < 0x2f00"
    using lo hi by (simp add: word_le_nat_alt word_less_nat_alt u)
qed

lemma redirect_addr_below_3000:
  fixes b :: u16
  assumes "b < 0x3000"
  shows "redirect_addr b = b"
proof -
  have "b AND 0x3f00 \<le> b"
    by (rule word_and_le2)
  with assms have "b AND 0x3f00 \<noteq> 0x3f00"
    by (auto simp: word_le_nat_alt word_less_nat_alt)
  moreover from assms have "\<not> 0x3000 \<le> b"
    by (simp add: word_le_nat_alt word_less_nat_alt)
  ultimately show ?thesis
    by (simp add: redirect_addr_def)
qed

lemma redirect_addr_name_table:
  fixes a :: u16
  assumes "0x3000 \<le> a" and "a < 0x3f00"
  shows "redirect_addr a = a - 0x1000"
  using assms by (simp add: redirect_addr_def)

lemma redirect_addr_palette:
  fixes a :: u16
  assumes "a AND 0x3f00 = 0x3f00"
  shows "redirect_addr a = (if a AND 0x10 = 0x10 then a AND 0xff0f else a AND 0xff1f)"
  using assms and_3f00_not_below [OF assms]
  by (simp add: redirect_addr_def Let_def and.assoc)

lemma redirect_addr_other:
  fixes a :: u16
  assumes "\<not> (0x3000 \<le> a \<and> a < 0x3f00)" and "a AND 0x3f00 \<noteq> 0x3f00"
  shows "redirect_addr a = a"
  using assms by (simp add: redirect_addr_def)

text \<open>
  C1. For every address \<open>a\<close> in \<open>[0x3000, 0x3F00)\<close>, \<open>redirect_addr a\<close> equals
  \<open>redirect_addr (a - 0x1000)\<close>; for every address \<open>a\<close> whose bits \<open>0x3F00\<close> are
  all set, \<open>redirect_addr a\<close> equals \<open>redirect_addr (a AND 0xFF1F)\<close>, and when bit 4
  of such an \<open>a\<close> is set it also equals \<open>redirect_addr (a AND 0xFF0F)\<close>.
\<close>

theorem redirect_addr_mirroring:
  fixes a :: u16
  shows "(0x3000 \<le> a \<and> a < 0x3f00 \<longrightarrow> redirect_addr a = redirect_addr (a - 0x1000))
       \<and> (a AND 0x3f00 = 0x3f00 \<longrightarrow>
            redirect_addr a = redirect_addr (a AND 0xff1f)
          \<and> (a AND 0x10 = 0x10 \<longrightarrow> redirect_addr a = redirect_addr (a AND 0xff0f)))"
proof (intro conjI impI)
  assume r: "0x3000 \<le> a \<and> a < 0x3f00"
  then have "a - 0x1000 < 0x2f00"
    using name_table_mirror_target(2) by blast
  then have "a - 0x1000 < 0x3000"
    by (simp add: word_less_nat_alt)
  then have "redirect_addr (a - 0x1000) = a - 0x1000"
    by (rule redirect_addr_below_3000)
  with r show "redirect_addr a = redirect_addr (a - 0x1000)"
    by (simp add: redirect_addr_name_table)
next
  assume p: "a AND 0x3f00 = 0x3f00"
  have p1: "(a AND 0xff1f) AND 0x3f00 = 0x3f00"
    using p by (simp add: and.assoc)
  show "redirect_addr a = redirect_addr (a AND 0xff1f)"
    by (simp add: redirect_addr_palette [OF p] redirect_addr_palette [OF p1] and.assoc)
next
  assume p: "a AND 0x3f00 = 0x3f00" and b: "a AND 0x10 = 0x10"
  have p2: "(a AND 0xff0f) AND 0x3f00 = 0x3f00"
    using p by (simp add: and.assoc)
  show "redirect_addr a = redirect_addr (a AND 0xff0f)"
    by (simp add: redirect_addr_palette [OF p] redirect_addr_palette [OF p2] b and.assoc)
qed

theorem redirect_addr_mirroring_witness:
  "((0x3000::u16) \<le> 0x3abc \<and> (0x3abc::u16) < 0x3f00)
   \<and> redirect_addr 0x3abc = redirect_addr (0x3abc - 0x1000)
   \<and> (0x3ff5::u16) AND 0x3f00 = 0x3f00 \<and> (0x3ff5::u16) AND 0x10 = 0x10
   \<and> redirect_addr 0x3ff5 = redirect_addr (0x3ff5 AND 0xff1f)
   \<and> redirect_addr 0x3ff5 = redirect_addr (0x3ff5 AND 0xff0f)"
proof -
  have r: "(0x3000::u16) \<le> 0x3abc \<and> (0x3abc::u16) < 0x3f00"
    by simp
  have p: "(0x3ff5::u16) AND 0x3f00 = 0x3f00"
    by simp
  have b: "(0x3ff5::u16) AND 0x10 = 0x10"
    by simp
  from redirect_addr_mirroring [of "0x3abc"] r
  have 1: "redirect_addr 0x3abc = redirect_addr (0x3abc - 0x1000)"
    by blast
  from redirect_addr_mirroring [of "0x3ff5"] p b
  have 2: "redirect_addr 0x3ff5 = redirect_addr (0x3ff5 AND 0xff1f)
         \<and> redirect_addr 0x3ff5 = redirect_addr (0x3ff5 AND 0xff0f)"
    by blast
  from r p b 1 2 show ?thesis
    by blast
qed

lemma redirect_addr_idem_palette:
  fixes a :: u16
  assumes p: "a AND 0x3f00 = 0x3f00"
  shows "redirect_addr (redirect_addr a) = redirect_addr a"
proof (cases "a AND 0x10 = 0x10")
  case True
  have q: "(a AND 0xff0f) AND 0x3f00 = 0x3f00"
    using p by (simp add: and.assoc)
  show ?thesis
    by (simp add: redirect_addr_palette [OF p] redirect_addr_palette [OF q] True and.assoc)
next
  case False
  have q: "(a AND 0xff1f) AND 0x3f00 = 0x3f00"
    using p by (simp add: and.assoc)
  show ?thesis
    by (simp add: redirect_addr_palette [OF p] redirect_addr_palette [OF q] False and.assoc)
qed

lemma redirect_addr_in_range:
  fixes a :: u16
  assumes "a < 0x4000"
  shows "redirect_addr a < 0x4000"
proof (cases "0x3000 \<le> a \<and> a < 0x3f00")
  case True
  then have "a - 0x1000 < 0x2f00"
    using name_table_mirror_target(2) by blast
  then have "a - 0x1000 < 0x4000"
    by (simp add: word_less_nat_alt)
  with True show ?thesis
    by (simp add: redirect_addr_name_table)
next
  case nt: False
  show ?thesis
  proof (cases "a AND 0x3f00 = 0x3f00")
    case True
    have "a AND 0xff0f \<le> a" and "a AND 0xff1f \<le> a"
      by (rule word_and_le2)+
    with assms have "a AND 0xff0f < 0x4000" and "a AND 0xff1f < 0x4000"
      by auto
    then show ?thesis
      by (simp add: redirect_addr_palette [OF True])
  next
    case False
    with nt assms show ?thesis
      by (simp add: redirect_addr_other)
  qed
qed

lemma below_4000_iff:
  fixes a :: u16
  shows "a < 0x4000 \<longleftrightarrow> a AND 0xc000 = 0"
proof
  assume "a < 0x4000"
  then have "a < 2 ^ 14"
    by simp
  then have "a AND mask 14 = a"
    by (rule less_mask_eq)
  then have e: "a AND 0x3fff = a"
    by (simp add: mask_eq_exp_minus_1)
  have "(a AND 0x3fff) AND 0xc000 = 0"
    by (simp add: and.assoc)
  with e show "a AND 0xc000 = 0"
    by simp
next
  assume z: "a AND 0xc000 = 0"
  have m: "(0xc000 OR 0x3fff :: u16) = - 1"
    by simp
  have "a = a AND (0xc000 OR 0x3fff)"
    unfolding m by simp
  also have "\<dots> = (a AND 0xc000) OR (a AND 0x3fff)"
    by (simp only: bit.conj_disj_distrib)
  also have "\<dots> = a AND 0x3fff"
    using z by simp
  finally have "a = a AND mask 14"
    by (simp add: mask_eq_exp_minus_1)
  moreover have "a AND mask 14 < 2 ^ 14"
    by (rule and_mask_less_size) (simp add: word_size)
  ultimately have "a < 2 ^ 14"
    by simp
  then show "a < 0x4000"
    by simp
qed

lemma redirect_addr_top_bits:
  fixes a :: u16
  assumes "\<not> a < 0x3f00"
  shows "redirect_addr a AND 0xc000 = a AND 0xc000"
  using assms by (simp add: redirect_addr_def Let_def and.assoc)

lemma redirect_addr_in_range_iff:
  fixes a :: u16
  shows "redirect_addr a < 0x4000 \<longleftrightarrow> a < 0x4000"
proof (cases "a < 0x3f00")
  case True
  then have a: "a < 0x4000"
    by (simp add: word_less_nat_alt)
  with redirect_addr_in_range [OF a] show ?thesis
    by simp
next
  case False
  then show ?thesis
    by (simp add: below_4000_iff redirect_addr_top_bits)
qed

text \<open>
  C2, as amended. The translation is a total function. For every address below
  \<open>0x4000\<close> its result is below \<open>0x4000\<close>, so that \<open>read_byte\<close> and
  \<open>write_byte\<close> access the video memory inside its \<open>PPU_VRAM_SIZE\<close> bytes, at
  the translated index. For every address of \<open>0x4000\<close> or more the result is again
  \<open>0x4000\<close> or more: the translation does not bring it into range, and the access
  of \<open>read_byte\<close> and \<open>write_byte\<close> falls outside the video memory.
\<close>

theorem redirect_addr_in_vram:
  fixes a :: u16
  shows "(a < 0x4000 \<longrightarrow>
            unat (redirect_addr a) < PPU_VRAM_SIZE
          \<and> read_byte a s = Some (vram s (unat (redirect_addr a)))
          \<and> write_byte a v s = Some (s\<lparr>vram := (vram s)(unat (redirect_addr a) := v)\<rparr>))
       \<and> (\<not> a < 0x4000 \<longrightarrow>
            \<not> unat (redirect_addr a) < PPU_VRAM_SIZE
          \<and> read_byte a s = None
          \<and> write_byte a v s = None)"
proof -
  have "unat (redirect_addr a) < PPU_VRAM_SIZE \<longleftrightarrow> redirect_addr a < 0x4000"
    by (simp add: word_less_nat_alt PPU_VRAM_SIZE_def)
  then have "unat (redirect_addr a) < PPU_VRAM_SIZE \<longleftrightarrow> a < 0x4000"
    by (simp only: redirect_addr_in_range_iff)
  then show ?thesis
    by (simp add: read_byte_def write_byte_def Let_def)
qed

theorem redirect_addr_in_vram_witness:
  "(0x3f14::u16) < 0x4000 \<and> unat (redirect_addr 0x3f14) < PPU_VRAM_SIZE
   \<and> read_byte 0x3f14 zeroed_ppu
       = Some (vram zeroed_ppu (unat (redirect_addr 0x3f14)))
   \<and> write_byte 0x3f14 7 zeroed_ppu
       = Some (zeroed_ppu\<lparr>vram := (vram zeroed_ppu)(unat (redirect_addr 0x3f14) := 7)\<rparr>)
   \<and> \<not> (0x7f14::u16) < 0x4000 \<and> \<not> unat (redirect_addr 0x7f14) < PPU_VRAM_SIZE
   \<and> read_byte 0x7f14 zeroed_ppu = None
   \<and> write_byte 0x7f14 7 zeroed_ppu = None"
proof -
  have h: "(0x3f14::u16) < 0x4000" and g: "\<not> (0x7f14::u16) < 0x4000"
    by simp_all
  from redirect_addr_in_vram [of "0x3f14" zeroed_ppu 7] h
  have 1: "unat (redirect_addr 0x3f14) < PPU_VRAM_SIZE
      \<and> read_byte 0x3f14 zeroed_ppu = Some (vram zeroed_ppu (unat (redirect_addr 0x3f14)))
      \<and> write_byte 0x3f14 7 zeroed_ppu
          = Some (zeroed_ppu\<lparr>vram := (vram zeroed_ppu)(unat (redirect_addr 0x3f14) := 7)\<rparr>)"
    by blast
  from redirect_addr_in_vram [of "0x7f14" zeroed_ppu 7] g
  have 2: "\<not> unat (redirect_addr 0x7f14) < PPU_VRAM_SIZE
      \<and> read_byte 0x7f14 zeroed_ppu = None \<and> write_byte 0x7f14 7 zeroed_ppu = None"
    by blast
  from h g 1 2 show ?thesis
    by blast
qed

text \<open>
  C2, as stated, fails: the address \<open>0x4000\<close> is translated to itself, which is not
  an index of the video memory.
\<close>

theorem redirect_addr_out_of_vram:
  "redirect_addr 0x4000 = 0x4000 \<and> \<not> unat (redirect_addr 0x4000) < PPU_VRAM_SIZE"
  by (simp add: redirect_addr_def PPU_VRAM_SIZE_def)

text \<open>
  C10. The translation is idempotent: translating a translated address changes
  nothing, so \<open>read_byte\<close> and \<open>write_byte\<close> reach the same place from a translated
  address as from the original one.
\<close>

theorem redirect_addr_idempotent:
  fixes a :: u16
  shows "redirect_addr (redirect_addr a) = redirect_addr a
       \<and> read_byte (redirect_addr a) s = read_byte a s
       \<and> write_byte (redirect_addr a) v s = write_byte a v s"
proof -
  have idem: "redirect_addr (redirect_addr a) = redirect_addr a"
  proof (cases "0x3000 \<le> a \<and> a < 0x3f00")
    case True
    then have "a - 0x1000 < 0x2f00"
      using name_table_mirror_target(2) by blast
    then have "a - 0x1000 < 0x3000"
      by (simp add: word_less_nat_alt)
    then have "redirect_addr (a - 0x1000) = a - 0x1000"
      by (rule redirect_addr_below_3000)
    with True show ?thesis
      by (simp add: redirect_addr_name_table)
  next
    case nt: False
    show ?thesis
    proof (cases "a AND 0x3f00 = 0x3f00")
      case True
      then show ?thesis
        by (rule redirect_addr_idem_palette)
    next
      case False
      with nt show ?thesis
        by (simp add: redirect_addr_other)
    qed
  qed
  then show ?thesis
    by (simp add: read_byte_def write_byte_def)
qed

section \<open>Properties of the registers\<close>

subsection \<open>Shared facts\<close>

lemma next_addr_latch_01:
  "next_addr_latch 0 = 1" "next_addr_latch 1 = 0"
  by (simp_all add: next_addr_latch_def)

lemma write_OAMADDR_eq:
  "write_OAMADDR v s = (write_latch v s)\<lparr>oam_addr := v\<rparr>"
  by (simp add: write_OAMADDR_def)

lemma write_PPUADDR_eq:
  "write_PPUADDR v s =
     (write_latch v s)\<lparr>addr_latch := next_addr_latch (addr_latch s),
        ppu_addr := (if next_addr_latch (addr_latch s) = 1
                     then (ppu_addr s AND 0x00ff) OR push_bit 8 (ucast v)
                     else (ppu_addr s AND 0xff00) OR ucast v)\<rparr>"
  by (simp add: write_PPUADDR_def write_latch_def Let_def)

lemma write_OAMDATA_eq:
  "write_OAMDATA v s =
     (write_latch v s)\<lparr>oam := (oam s)(oam_addr s := v), oam_addr := oam_addr s + 1\<rparr>"
  by (simp add: write_OAMDATA_def write_latch_def Let_def)

lemma write_PPUDATA_eq:
  "write_PPUDATA v s =
     (if unat (redirect_addr (ppu_addr s)) < PPU_VRAM_SIZE
      then Some ((write_latch v s)\<lparr>vram := (vram s)(unat (redirect_addr (ppu_addr s)) := v),
                   ppu_addr := ppu_addr s + ppu_addr_inc s\<rparr>)
      else None)"
  by (simp add: write_PPUDATA_def write_byte_def write_latch_def Let_def)

subsection \<open>Writes before the PPU is ready\<close>

lemma gated_writes_not_ready:
  assumes "\<not> is_ready s"
  shows "write_PPUCTRL v s = s" and "write_PPUMASK v s = s" and "write_PPUSCROLL v s = s"
  using assms by (simp_all add: write_PPUCTRL_def write_PPUMASK_def write_PPUSCROLL_def)

lemma ungated_writes_master_cycle:
  "write_OAMADDR v (s\<lparr>master_cycle := c\<rparr>) = (write_OAMADDR v s)\<lparr>master_cycle := c\<rparr>"
  "write_PPUADDR v (s\<lparr>master_cycle := c\<rparr>) = (write_PPUADDR v s)\<lparr>master_cycle := c\<rparr>"
  "write_OAMDATA v (s\<lparr>master_cycle := c\<rparr>) = (write_OAMDATA v s)\<lparr>master_cycle := c\<rparr>"
  "write_PPUDATA v (s\<lparr>master_cycle := c\<rparr>)
     = map_option (\<lambda>t. t\<lparr>master_cycle := c\<rparr>) (write_PPUDATA v s)"
  by (simp_all add: write_OAMADDR_eq write_PPUADDR_eq write_OAMDATA_eq write_PPUDATA_eq
      write_latch_def)

text \<open>
  C3. While the master cycle count is at most 29658, \<open>write_PPUCTRL\<close>,
  \<open>write_PPUMASK\<close> and \<open>write_PPUSCROLL\<close> return the state they were given, so no
  member changes, the communication latch included. \<open>write_OAMADDR\<close>,
  \<open>write_PPUADDR\<close>, \<open>write_OAMDATA\<close>, \<open>write_PPUDATA\<close> and \<open>write_OAMDMA\<close> have
  their full effect in that state, and their effect does not depend on the master
  cycle count at all. For \<open>write_OAMDMA\<close> the effect is that of \<open>oam_dma\<close> as the
  spec gives it: OAM entry \<open>i\<close> becomes the byte of the external memory at
  \<open>page * 0x100 + i\<close>, for the page written.
\<close>

theorem writes_before_ready:
  assumes "master_cycle s \<le> 29658"
  shows "\<not> is_ready s
       \<and> write_PPUCTRL v s = s \<and> write_PPUMASK v s = s \<and> write_PPUSCROLL v s = s
       \<and> write_OAMADDR v s = (write_latch v s)\<lparr>oam_addr := v\<rparr>
       \<and> write_PPUADDR v s =
           (write_latch v s)\<lparr>addr_latch := next_addr_latch (addr_latch s),
              ppu_addr := (if next_addr_latch (addr_latch s) = 1
                           then (ppu_addr s AND 0x00ff) OR push_bit 8 (ucast v)
                           else (ppu_addr s AND 0xff00) OR ucast v)\<rparr>
       \<and> write_OAMDATA v s =
           (write_latch v s)\<lparr>oam := (oam s)(oam_addr s := v), oam_addr := oam_addr s + 1\<rparr>
       \<and> write_PPUDATA v s =
           (if unat (redirect_addr (ppu_addr s)) < PPU_VRAM_SIZE
            then Some ((write_latch v s)\<lparr>
                   vram := (vram s)(unat (redirect_addr (ppu_addr s)) := v),
                   ppu_addr := ppu_addr s + ppu_addr_inc s\<rparr>)
            else None)
       \<and> write_OAMDMA mem v s = s\<lparr>oam := (\<lambda>i. mem (push_bit 8 (ucast v) + ucast i))\<rparr>
       \<and> write_OAMDMA mem v (s\<lparr>master_cycle := c\<rparr>)
           = (write_OAMDMA mem v s)\<lparr>master_cycle := c\<rparr>
       \<and> write_OAMADDR v (s\<lparr>master_cycle := c\<rparr>) = (write_OAMADDR v s)\<lparr>master_cycle := c\<rparr>
       \<and> write_PPUADDR v (s\<lparr>master_cycle := c\<rparr>) = (write_PPUADDR v s)\<lparr>master_cycle := c\<rparr>
       \<and> write_OAMDATA v (s\<lparr>master_cycle := c\<rparr>) = (write_OAMDATA v s)\<lparr>master_cycle := c\<rparr>
       \<and> write_PPUDATA v (s\<lparr>master_cycle := c\<rparr>)
           = map_option (\<lambda>t. t\<lparr>master_cycle := c\<rparr>) (write_PPUDATA v s)"
proof -
  have nr: "\<not> is_ready s"
    using assms by (simp add: is_ready_def)
  have dma: "write_OAMDMA mem v s = s\<lparr>oam := (\<lambda>i. mem (push_bit 8 (ucast v) + ucast i))\<rparr>"
    "write_OAMDMA mem v (s\<lparr>master_cycle := c\<rparr>) = (write_OAMDMA mem v s)\<lparr>master_cycle := c\<rparr>"
    by (simp_all add: write_OAMDMA_def oam_dma_def)
  show ?thesis
    using nr gated_writes_not_ready [OF nr, of v] dma
    by (simp only: write_OAMADDR_eq [symmetric] write_PPUADDR_eq [symmetric]
        write_OAMDATA_eq [symmetric] write_PPUDATA_eq [symmetric]
        ungated_writes_master_cycle simp_thms)
qed

theorem writes_before_ready_witness:
  "master_cycle zeroed_ppu \<le> 29658
   \<and> write_PPUCTRL 0x84 zeroed_ppu = zeroed_ppu
   \<and> write_PPUMASK 0x84 zeroed_ppu = zeroed_ppu
   \<and> write_PPUSCROLL 0x84 zeroed_ppu = zeroed_ppu
   \<and> write_OAMADDR 0x84 zeroed_ppu = zeroed_ppu\<lparr>latch := 0x84, oam_addr := 0x84\<rparr>
   \<and> write_PPUADDR 0x84 zeroed_ppu
       = zeroed_ppu\<lparr>latch := 0x84, addr_latch := 1, ppu_addr := 0x8400\<rparr>
   \<and> write_OAMDATA 0x84 zeroed_ppu
       = zeroed_ppu\<lparr>latch := 0x84, oam := (\<lambda>_. 0)(0 := 0x84), oam_addr := 1\<rparr>
   \<and> write_PPUDATA 0x84 zeroed_ppu
       = Some (zeroed_ppu\<lparr>latch := 0x84, vram := (\<lambda>_. 0)(0 := 0x84), ppu_addr := 0\<rparr>)
   \<and> write_OAMDMA (\<lambda>a. ucast a) 0x84 zeroed_ppu
       = zeroed_ppu\<lparr>oam := (\<lambda>i. ucast (0x8400 + (ucast i :: u16)))\<rparr>
   \<and> oam (write_OAMDMA (\<lambda>a. ucast a) 0x84 zeroed_ppu) 3 = 3"
proof -
  have h: "master_cycle zeroed_ppu \<le> 29658"
    by (simp add: zeroed_ppu_def)
  note t = writes_before_ready [OF h, of "0x84" "\<lambda>a. ucast a"]
  have z: "protect_register zeroed_ppu = False" "addr_latch zeroed_ppu = 0"
    "ppu_addr zeroed_ppu = 0" "oam zeroed_ppu = (\<lambda>_. 0)" "oam_addr zeroed_ppu = 0"
    "vram zeroed_ppu = (\<lambda>_. 0)" "ppu_addr_inc zeroed_ppu = 0"
    by (simp_all add: zeroed_ppu_def)
  have r: "redirect_addr 0 = 0"
    by (simp add: redirect_addr_def)
  from t h show ?thesis
    by (simp add: write_latch_def z r next_addr_latch_01 PPU_VRAM_SIZE_def)
qed

subsection \<open>Reading the status register\<close>

lemma read_PPUSTATUS_value:
  "fst (read_PPUSTATUS s) =
     (latch s AND 0x1f) OR (if sprite_0_hit s then 0x40 else 0)
       OR (if sprite_overflow s then 0x20 else 0) OR (if vblank_started s then 0x80 else 0)"
  by (simp add: read_PPUSTATUS_def Let_def PPUSTATUS_LATCH_MASK_def
      PPUSTATUS_SPRITE_0_HIT_def PPUSTATUS_SPRITE_OVERFLOW_def PPUSTATUS_VBLANK_START_def
      or.assoc)

lemma read_PPUSTATUS_unprotected:
  assumes "\<not> protect_register s"
  shows "snd (read_PPUSTATUS s) =
           s\<lparr>vblank_started := False, addr_latch := 0, latch := fst (read_PPUSTATUS s)\<rparr>"
  using assms by (simp add: read_PPUSTATUS_def Let_def write_latch_def)

lemma read_PPUSTATUS_protected:
  assumes "protect_register s"
  shows "snd (read_PPUSTATUS s) = s"
  using assms by (simp add: read_PPUSTATUS_def Let_def write_latch_def)

lemma read_PPUSTATUS_sprite_flags:
  "sprite_0_hit (snd (read_PPUSTATUS s)) = sprite_0_hit s"
  "sprite_overflow (snd (read_PPUSTATUS s)) = sprite_overflow s"
  by (simp_all add: read_PPUSTATUS_def Let_def write_latch_def)

text \<open>
  C4, as amended. \<open>read_PPUSTATUS\<close> returns the low five bits of the latch, with
  bit 6 set when sprite-0-hit is, bit 5 when sprite-overflow is and bit 7 when vblank
  is. With protection disabled, the call clears the vblank flag, resets the write
  toggle to 0 and writes the returned value into the communication latch, and
  changes nothing else. With protection enabled the call changes nothing at all:
  the latch, the vblank flag and the write toggle stay as they are, and a repeated
  read returns the same value. The sprite-0-hit and sprite-overflow flags are never
  changed.
\<close>

theorem read_PPUSTATUS_effect:
  "fst (read_PPUSTATUS s) =
     (latch s AND 0x1f) OR (if sprite_0_hit s then 0x40 else 0)
       OR (if sprite_overflow s then 0x20 else 0) OR (if vblank_started s then 0x80 else 0)
   \<and> (\<not> protect_register s \<longrightarrow>
        snd (read_PPUSTATUS s) =
          s\<lparr>vblank_started := False, addr_latch := 0, latch := fst (read_PPUSTATUS s)\<rparr>)
   \<and> (protect_register s \<longrightarrow>
        snd (read_PPUSTATUS s) = s
      \<and> read_PPUSTATUS (snd (read_PPUSTATUS s)) = read_PPUSTATUS s)
   \<and> sprite_0_hit (snd (read_PPUSTATUS s)) = sprite_0_hit s
   \<and> sprite_overflow (snd (read_PPUSTATUS s)) = sprite_overflow s"
  by (simp add: read_PPUSTATUS_value read_PPUSTATUS_unprotected read_PPUSTATUS_protected
      read_PPUSTATUS_sprite_flags)

theorem read_PPUSTATUS_effect_witness:
  "\<not> protect_register (zeroed_ppu\<lparr>latch := 0xff, vblank_started := True,
        sprite_0_hit := True, addr_latch := 1\<rparr>)
   \<and> read_PPUSTATUS (zeroed_ppu\<lparr>latch := 0xff, vblank_started := True,
        sprite_0_hit := True, addr_latch := 1\<rparr>)
       = (0xdf, zeroed_ppu\<lparr>latch := 0xdf, vblank_started := False,
            sprite_0_hit := True, addr_latch := 0\<rparr>)
   \<and> protect_register (zeroed_ppu\<lparr>latch := 0xff, vblank_started := True,
        sprite_0_hit := True, addr_latch := 1, protect_register := True\<rparr>)
   \<and> read_PPUSTATUS (zeroed_ppu\<lparr>latch := 0xff, vblank_started := True,
        sprite_0_hit := True, addr_latch := 1, protect_register := True\<rparr>)
       = (0xdf, zeroed_ppu\<lparr>latch := 0xff, vblank_started := True,
            sprite_0_hit := True, addr_latch := 1, protect_register := True\<rparr>)"
proof -
  let ?u = "zeroed_ppu\<lparr>latch := 0xff, vblank_started := True,
              sprite_0_hit := True, addr_latch := 1\<rparr>"
  let ?p = "zeroed_ppu\<lparr>latch := 0xff, vblank_started := True,
              sprite_0_hit := True, addr_latch := 1, protect_register := True\<rparr>"
  have u: "\<not> protect_register ?u" and p: "protect_register ?p"
    by (simp_all add: zeroed_ppu_def)
  have fu: "fst (read_PPUSTATUS ?u) = 0xdf" and su: "snd (read_PPUSTATUS ?u)
      = zeroed_ppu\<lparr>latch := 0xdf, vblank_started := False, sprite_0_hit := True,
          addr_latch := 0\<rparr>"
    using read_PPUSTATUS_effect [of ?u] u by (simp_all add: zeroed_ppu_def)
  have fp: "fst (read_PPUSTATUS ?p) = 0xdf" and sp: "snd (read_PPUSTATUS ?p) = ?p"
    using read_PPUSTATUS_effect [of ?p] p by (simp_all add: zeroed_ppu_def)
  from u p fu su fp sp show ?thesis
    by (simp add: prod_eq_iff)
qed

text \<open>
  C4, as stated, fails: a read under protection returns \<open>0x1f\<close> from a latch of
  \<open>0xff\<close> and leaves the latch at \<open>0xff\<close>.
\<close>

theorem read_PPUSTATUS_protected_latch:
  "fst (read_PPUSTATUS (zeroed_ppu\<lparr>latch := 0xff, protect_register := True\<rparr>)) = 0x1f
   \<and> latch (snd (read_PPUSTATUS (zeroed_ppu\<lparr>latch := 0xff, protect_register := True\<rparr>)))
       = 0xff
   \<and> latch (snd (read_PPUSTATUS (zeroed_ppu\<lparr>latch := 0xff, protect_register := True\<rparr>)))
       \<noteq> fst (read_PPUSTATUS (zeroed_ppu\<lparr>latch := 0xff, protect_register := True\<rparr>))"
  by (simp add: read_PPUSTATUS_def Let_def write_latch_def zeroed_ppu_def
      PPUSTATUS_LATCH_MASK_def)

subsection \<open>The address port and the data port\<close>

lemma set_low_after_high:
  fixes x :: u16 and hi lo :: u8
  shows "(((x AND 0x00ff) OR push_bit 8 (ucast hi)) AND 0xff00) OR ucast lo
         = push_bit 8 (ucast hi) OR ucast lo"
proof -
  have m: "(0xff00 :: u16) = push_bit 8 (mask 8)"
    by (simp add: mask_eq_exp_minus_1)
  have "push_bit 8 (ucast hi :: u16) AND 0xff00 = push_bit 8 (ucast hi)"
    unfolding m by (rule bit_word_eqI) (auto simp: bit_simps)
  then show ?thesis
    by (simp add: word_ao_dist and.assoc)
qed

lemma write_PPUADDR_first:
  assumes "addr_latch s = 0"
  shows "ppu_addr (write_PPUADDR hi s) = (ppu_addr s AND 0x00ff) OR push_bit 8 (ucast hi)"
    and "addr_latch (write_PPUADDR hi s) = 1"
  using assms by (simp_all add: write_PPUADDR_eq next_addr_latch_01)

lemma write_PPUADDR_second:
  assumes "addr_latch s = 1"
  shows "ppu_addr (write_PPUADDR lo s) = (ppu_addr s AND 0xff00) OR ucast lo"
    and "addr_latch (write_PPUADDR lo s) = 0"
  using assms by (simp_all add: write_PPUADDR_eq next_addr_latch_01)

lemma write_PPUADDR_pair:
  assumes "addr_latch s = 0"
  shows "ppu_addr (write_PPUADDR lo (write_PPUADDR hi s)) = push_bit 8 (ucast hi) OR ucast lo"
  using assms set_low_after_high [of "ppu_addr s" hi lo]
  by (simp add: write_PPUADDR_first write_PPUADDR_second)

lemma write_PPUADDR_keeps:
  "ppu_addr_inc (write_PPUADDR v s) = ppu_addr_inc s"
  "master_cycle (write_PPUADDR v s) = master_cycle s"
  by (simp_all add: write_PPUADDR_eq write_latch_def)

lemma write_PPUCTRL_inc:
  assumes "is_ready s"
  shows "ppu_addr_inc (write_PPUCTRL c s) = (if c AND 0x04 = 0 then 1 else 0x20)"
  using assms by (simp add: write_PPUCTRL_def Let_def PPUCTRL_VRAM_ADDR_MASK_def)

lemma write_PPUCTRL_addr_latch:
  "addr_latch (write_PPUCTRL c s) = addr_latch s"
  by (simp add: write_PPUCTRL_def Let_def write_latch_def)

lemma write_PPUDATA_at_2108:
  assumes "ppu_addr s = 0x2108"
  shows "write_PPUDATA v s =
           Some ((write_latch v s)\<lparr>vram := (vram s)(0x2108 := v),
                   ppu_addr := 0x2108 + ppu_addr_inc s\<rparr>)"
  using assms by (simp add: write_PPUDATA_eq redirect_addr_def PPU_VRAM_SIZE_def)

text \<open>
  C5. From a state whose write toggle is 0, \<open>write_PPUADDR 0x21\<close> sets the high byte
  of the video address and keeps the low byte, and \<open>write_PPUADDR 0x08\<close> after it
  sets the low byte and keeps the high byte: the address is \<open>0x2108\<close>. A
  \<open>write_PPUDATA v\<close> then stores \<open>v\<close> at the translation of \<open>0x2108\<close>, which is
  index \<open>0x2108\<close>, and adds the configured increment to the address. That increment
  is what the last \<open>write_PPUCTRL\<close> that took effect (one made when ready) left: 1
  when bit 2 of its value was clear, 32 when it was set; the address writes do not
  change it.
\<close>

theorem ppuaddr_pair_then_ppudata:
  assumes "addr_latch s = 0"
  shows "ppu_addr (write_PPUADDR 0x21 s) = (ppu_addr s AND 0x00ff) OR 0x2100
       \<and> ppu_addr (write_PPUADDR 0x08 (write_PPUADDR 0x21 s))
           = (ppu_addr (write_PPUADDR 0x21 s) AND 0xff00) OR 0x08
       \<and> ppu_addr (write_PPUADDR 0x08 (write_PPUADDR 0x21 s)) = 0x2108
       \<and> unat (redirect_addr 0x2108) = 0x2108
       \<and> write_PPUDATA v (write_PPUADDR 0x08 (write_PPUADDR 0x21 s))
           = Some ((write_latch v (write_PPUADDR 0x08 (write_PPUADDR 0x21 s)))\<lparr>
                vram := (vram s)(0x2108 := v),
                ppu_addr := 0x2108 + ppu_addr_inc s\<rparr>)
       \<and> (is_ready s \<longrightarrow>
            ppu_addr_inc (write_PPUCTRL c s) = (if c AND 0x04 = 0 then 1 else 0x20)
          \<and> (\<exists>t. write_PPUDATA v (write_PPUADDR 0x08 (write_PPUADDR 0x21 (write_PPUCTRL c s)))
                   = Some t
                \<and> vram t 0x2108 = v
                \<and> ppu_addr t = 0x2108 + (if c AND 0x04 = 0 then 1 else 0x20)))"
proof -
  let ?s1 = "write_PPUADDR 0x21 s"
  let ?s2 = "write_PPUADDR 0x08 ?s1"
  have a1: "ppu_addr ?s1 = (ppu_addr s AND 0x00ff) OR 0x2100" and l1: "addr_latch ?s1 = 1"
    using write_PPUADDR_first [OF assms, of "0x21"] by simp_all
  have a2: "ppu_addr ?s2 = (ppu_addr ?s1 AND 0xff00) OR 0x08"
    using write_PPUADDR_second [OF l1, of "0x08"] by simp
  have a3: "ppu_addr ?s2 = 0x2108"
    using write_PPUADDR_pair [OF assms, of "0x08" "0x21"] by simp
  have r: "unat (redirect_addr 0x2108) = 0x2108"
    by (simp add: redirect_addr_def)
  have k: "vram ?s2 = vram s" "ppu_addr_inc ?s2 = ppu_addr_inc s"
    by (simp_all add: write_PPUADDR_eq write_latch_def)
  have d: "write_PPUDATA v ?s2
      = Some ((write_latch v ?s2)\<lparr>vram := (vram s)(0x2108 := v),
                ppu_addr := 0x2108 + ppu_addr_inc s\<rparr>)"
    using write_PPUDATA_at_2108 [OF a3, of v] by (simp add: k)
  have c: "is_ready s \<longrightarrow>
      ppu_addr_inc (write_PPUCTRL c s) = (if c AND 0x04 = 0 then 1 else 0x20)
    \<and> (\<exists>t. write_PPUDATA v (write_PPUADDR 0x08 (write_PPUADDR 0x21 (write_PPUCTRL c s)))
             = Some t
          \<and> vram t 0x2108 = v
          \<and> ppu_addr t = 0x2108 + (if c AND 0x04 = 0 then 1 else 0x20))"
  proof
    assume rdy: "is_ready s"
    let ?c = "write_PPUCTRL c s"
    let ?c2 = "write_PPUADDR 0x08 (write_PPUADDR 0x21 ?c)"
    have i: "ppu_addr_inc ?c = (if c AND 0x04 = 0 then 1 else 0x20)"
      using rdy by (rule write_PPUCTRL_inc)
    have lc: "addr_latch ?c = 0"
      using assms by (simp add: write_PPUCTRL_addr_latch)
    have ac: "ppu_addr ?c2 = 0x2108"
      using write_PPUADDR_pair [OF lc, of "0x08" "0x21"] by simp
    have ic: "ppu_addr_inc ?c2 = ppu_addr_inc ?c"
      by (simp add: write_PPUADDR_keeps)
    have "write_PPUDATA v ?c2
        = Some ((write_latch v ?c2)\<lparr>vram := (vram ?c2)(0x2108 := v),
                  ppu_addr := 0x2108 + ppu_addr_inc ?c2\<rparr>)"
      using ac by (rule write_PPUDATA_at_2108)
    then have "\<exists>t. write_PPUDATA v ?c2 = Some t \<and> vram t 0x2108 = v
        \<and> ppu_addr t = 0x2108 + ppu_addr_inc ?c"
      by (simp add: ic)
    with i show "ppu_addr_inc ?c = (if c AND 0x04 = 0 then 1 else 0x20)
      \<and> (\<exists>t. write_PPUDATA v ?c2 = Some t \<and> vram t 0x2108 = v
            \<and> ppu_addr t = 0x2108 + (if c AND 0x04 = 0 then 1 else 0x20))"
      by simp
  qed
  from a1 a2 a3 r d c show ?thesis
    by (intro conjI)
qed

theorem ppuaddr_pair_then_ppudata_witness:
  "addr_latch (zeroed_ppu\<lparr>master_cycle := 29659\<rparr>) = 0
   \<and> is_ready (zeroed_ppu\<lparr>master_cycle := 29659\<rparr>)
   \<and> ppu_addr (write_PPUADDR 0x08 (write_PPUADDR 0x21 (zeroed_ppu\<lparr>master_cycle := 29659\<rparr>)))
       = 0x2108
   \<and> ppu_addr_inc (write_PPUCTRL 0x04 (zeroed_ppu\<lparr>master_cycle := 29659\<rparr>)) = 0x20
   \<and> (\<exists>t. write_PPUDATA 0x5a (write_PPUADDR 0x08 (write_PPUADDR 0x21
              (write_PPUCTRL 0x04 (zeroed_ppu\<lparr>master_cycle := 29659\<rparr>)))) = Some t
          \<and> vram t 0x2108 = 0x5a \<and> ppu_addr t = 0x2128)
   \<and> ppu_addr_inc (write_PPUCTRL 0x80 (zeroed_ppu\<lparr>master_cycle := 29659\<rparr>)) = 1"
proof -
  let ?z = "zeroed_ppu\<lparr>master_cycle := 29659\<rparr>"
  have l: "addr_latch ?z = 0"
    by (simp add: zeroed_ppu_def)
  have r: "is_ready ?z"
    by (simp add: is_ready_def zeroed_ppu_def)
  note t4 = ppuaddr_pair_then_ppudata [OF l, of "0x5a" "0x04"]
  note t80 = ppuaddr_pair_then_ppudata [OF l, of "0x5a" "0x80"]
  have 1: "ppu_addr (write_PPUADDR 0x08 (write_PPUADDR 0x21 ?z)) = 0x2108"
    using t4 by blast
  have "ppu_addr_inc (write_PPUCTRL 0x04 ?z) = (if (0x04::u8) AND 0x04 = 0 then 1 else 0x20)
      \<and> (\<exists>t. write_PPUDATA 0x5a (write_PPUADDR 0x08 (write_PPUADDR 0x21
                (write_PPUCTRL 0x04 ?z))) = Some t
            \<and> vram t 0x2108 = 0x5a
            \<and> ppu_addr t = 0x2108 + (if (0x04::u8) AND 0x04 = 0 then 1 else 0x20))"
    using t4 r by blast
  then have 2: "ppu_addr_inc (write_PPUCTRL 0x04 ?z) = 0x20"
    and 3: "\<exists>t. write_PPUDATA 0x5a (write_PPUADDR 0x08 (write_PPUADDR 0x21
              (write_PPUCTRL 0x04 ?z))) = Some t
          \<and> vram t 0x2108 = 0x5a \<and> ppu_addr t = 0x2128"
    by simp_all
  have "ppu_addr_inc (write_PPUCTRL 0x80 ?z) = (if (0x80::u8) AND 0x04 = 0 then 1 else 0x20)"
    using t80 r by blast
  then have 4: "ppu_addr_inc (write_PPUCTRL 0x80 ?z) = 1"
    by simp
  from l r 1 2 3 4 show ?thesis
    by (intro conjI)
qed

subsection \<open>The write toggle\<close>

lemma next_addr_latch_flip:
  assumes "l \<in> {0, 1}"
  shows "next_addr_latch l = 1 - l"
  using assms by (auto simp: next_addr_latch_01)

lemma addr_latch_kept:
  "addr_latch (write_PPUCTRL v s) = addr_latch s"
  "addr_latch (write_PPUMASK v s) = addr_latch s"
  "addr_latch (write_OAMADDR v s) = addr_latch s"
  "addr_latch (write_OAMDATA v s) = addr_latch s"
  "addr_latch (snd (read_OAMDATA s)) = addr_latch s"
  "addr_latch (set_protect b s) = addr_latch s"
  by (simp_all add: write_PPUCTRL_def write_PPUMASK_def write_OAMADDR_def write_OAMDATA_def
      read_OAMDATA_def set_protect_def write_latch_def Let_def)

lemma addr_latch_write_PPUDATA:
  assumes "write_PPUDATA v s = Some t"
  shows "addr_latch t = addr_latch s"
  using assms by (auto simp: write_PPUDATA_eq write_latch_def split: if_splits)

lemma addr_latch_read_PPUDATA:
  assumes "read_PPUDATA s = Some (x, t)"
  shows "addr_latch t = addr_latch s"
  using assms
  by (auto simp: read_PPUDATA_def read_byte_def write_latch_def Let_def split: if_splits)

lemma addr_latch_read_PPUSTATUS:
  "addr_latch (snd (read_PPUSTATUS s)) = (if protect_register s then addr_latch s else 0)"
  by (simp add: read_PPUSTATUS_def write_latch_def Let_def)

lemma addr_latch_write_PPUADDR:
  "addr_latch (write_PPUADDR v s) = next_addr_latch (addr_latch s)"
  by (simp add: write_PPUADDR_eq)

lemma addr_latch_write_PPUSCROLL:
  "addr_latch (write_PPUSCROLL v s)
     = (if is_ready s then next_addr_latch (addr_latch s) else addr_latch s)"
  by (simp add: write_PPUSCROLL_def write_latch_def Let_def)

lemma is_ready_kept:
  "is_ready (write_PPUADDR v s) = is_ready s"
  "is_ready (write_PPUSCROLL v s) = is_ready s"
  by (simp_all add: is_ready_def write_PPUADDR_eq write_PPUSCROLL_def write_latch_def Let_def)

lemma ppu_addr_write_PPUSCROLL:
  "ppu_addr (write_PPUSCROLL w s) = ppu_addr s"
  by (simp add: write_PPUSCROLL_def write_latch_def Let_def)

text \<open>
  C6, as amended. The write toggle \<open>_addr_latch\<close> is 0 or 1, and every register
  operation keeps it so; an unprotected status read resets it to 0. The two ports
  PPUSCROLL and PPUADDR work on this one member: every write to PPUADDR flips it,
  every write to PPUSCROLL made when the PPU is ready flips it, and a write to
  PPUSCROLL before readiness leaves it as it is. A ready PPUSCROLL write followed by
  a PPUADDR write therefore brings the toggle back, and from toggle 0 the PPUADDR
  write after a PPUSCROLL write is a second write: it sets the low address byte.
  \<open>write_OAMDMA\<close> keeps the toggle, \<open>oam_dma\<close> being as the spec gives it.
\<close>

theorem addr_latch_toggle:
  assumes "addr_latch s \<in> {0, 1}"
  shows "addr_latch (write_PPUCTRL v s) \<in> {0, 1}
       \<and> addr_latch (write_PPUMASK v s) \<in> {0, 1}
       \<and> addr_latch (snd (read_PPUSTATUS s)) \<in> {0, 1}
       \<and> addr_latch (write_OAMADDR v s) \<in> {0, 1}
       \<and> addr_latch (write_OAMDATA v s) \<in> {0, 1}
       \<and> addr_latch (snd (read_OAMDATA s)) \<in> {0, 1}
       \<and> addr_latch (write_PPUSCROLL v s) \<in> {0, 1}
       \<and> addr_latch (write_PPUADDR v s) \<in> {0, 1}
       \<and> (\<forall>t. write_PPUDATA v s = Some t \<longrightarrow> addr_latch t \<in> {0, 1})
       \<and> (\<forall>x t. read_PPUDATA s = Some (x, t) \<longrightarrow> addr_latch t \<in> {0, 1})
       \<and> addr_latch (set_protect b s) \<in> {0, 1}
       \<and> addr_latch (write_OAMDMA mem v s) \<in> {0, 1}
       \<and> (\<not> protect_register s \<longrightarrow> addr_latch (snd (read_PPUSTATUS s)) = 0)
       \<and> addr_latch (write_PPUADDR v s) = 1 - addr_latch s
       \<and> (is_ready s \<longrightarrow> addr_latch (write_PPUSCROLL v s) = 1 - addr_latch s)
       \<and> (\<not> is_ready s \<longrightarrow> addr_latch (write_PPUSCROLL v s) = addr_latch s)
       \<and> (is_ready s \<longrightarrow>
            addr_latch (write_PPUADDR v (write_PPUSCROLL w s)) = addr_latch s
          \<and> addr_latch (write_PPUSCROLL w (write_PPUADDR v s)) = addr_latch s)
       \<and> (is_ready s \<and> addr_latch s = 0 \<longrightarrow>
            ppu_addr (write_PPUADDR v (write_PPUSCROLL w s)) = (ppu_addr s AND 0xff00) OR ucast v)"
proof -
  have f: "next_addr_latch (addr_latch s) = 1 - addr_latch s"
    using assms by (rule next_addr_latch_flip)
  have g: "(1 - addr_latch s) \<in> {0, 1}" and gg: "1 - (1 - addr_latch s) = addr_latch s"
    using assms by auto
  have kept: "addr_latch (write_PPUCTRL v s) \<in> {0, 1}" "addr_latch (write_PPUMASK v s) \<in> {0, 1}"
    "addr_latch (write_OAMADDR v s) \<in> {0, 1}" "addr_latch (write_OAMDATA v s) \<in> {0, 1}"
    "addr_latch (snd (read_OAMDATA s)) \<in> {0, 1}" "addr_latch (set_protect b s) \<in> {0, 1}"
    using assms by (simp_all only: addr_latch_kept)
  have st: "addr_latch (snd (read_PPUSTATUS s)) \<in> {0, 1}"
    and st0: "\<not> protect_register s \<longrightarrow> addr_latch (snd (read_PPUSTATUS s)) = 0"
    using assms by (simp_all add: addr_latch_read_PPUSTATUS)
  have ad: "addr_latch (write_PPUADDR v s) = 1 - addr_latch s"
    by (simp add: addr_latch_write_PPUADDR f)
  have sc: "is_ready s \<longrightarrow> addr_latch (write_PPUSCROLL v s) = 1 - addr_latch s"
    and sn: "\<not> is_ready s \<longrightarrow> addr_latch (write_PPUSCROLL v s) = addr_latch s"
    by (simp_all add: addr_latch_write_PPUSCROLL f)
  have adr: "addr_latch (write_PPUADDR v s) \<in> {0, 1}"
    using g by (simp only: ad)
  have scr: "addr_latch (write_PPUSCROLL v s) \<in> {0, 1}"
    using assms g sc sn by (cases "is_ready s") simp_all
  have wd: "\<forall>t. write_PPUDATA v s = Some t \<longrightarrow> addr_latch t \<in> {0, 1}"
    using assms addr_latch_write_PPUDATA by metis
  have rd: "\<forall>x t. read_PPUDATA s = Some (x, t) \<longrightarrow> addr_latch t \<in> {0, 1}"
    using assms addr_latch_read_PPUDATA by metis
  have dma: "addr_latch (write_OAMDMA mem v s) \<in> {0, 1}"
    using assms by (simp add: write_OAMDMA_def oam_dma_def)
  have both: "is_ready s \<longrightarrow>
        addr_latch (write_PPUADDR v (write_PPUSCROLL w s)) = addr_latch s
      \<and> addr_latch (write_PPUSCROLL w (write_PPUADDR v s)) = addr_latch s"
  proof
    assume r: "is_ready s"
    have "next_addr_latch (1 - addr_latch s) = addr_latch s"
      using next_addr_latch_flip [OF g] gg by simp
    with r show "addr_latch (write_PPUADDR v (write_PPUSCROLL w s)) = addr_latch s
      \<and> addr_latch (write_PPUSCROLL w (write_PPUADDR v s)) = addr_latch s"
      by (simp add: addr_latch_write_PPUADDR addr_latch_write_PPUSCROLL is_ready_kept f)
  qed
  have low: "is_ready s \<and> addr_latch s = 0 \<longrightarrow>
      ppu_addr (write_PPUADDR v (write_PPUSCROLL w s)) = (ppu_addr s AND 0xff00) OR ucast v"
  proof
    assume a: "is_ready s \<and> addr_latch s = 0"
    then have "addr_latch (write_PPUSCROLL w s) = 1"
      by (simp add: addr_latch_write_PPUSCROLL next_addr_latch_01)
    then show "ppu_addr (write_PPUADDR v (write_PPUSCROLL w s))
        = (ppu_addr s AND 0xff00) OR ucast v"
      by (simp add: write_PPUADDR_second ppu_addr_write_PPUSCROLL)
  qed
  from kept st scr adr wd rd dma st0 ad sc sn both low show ?thesis
    by (intro conjI)
qed

theorem addr_latch_toggle_witness:
  "addr_latch (zeroed_ppu\<lparr>master_cycle := 29659\<rparr>) \<in> {0, 1}
   \<and> is_ready (zeroed_ppu\<lparr>master_cycle := 29659\<rparr>)
   \<and> \<not> protect_register (zeroed_ppu\<lparr>master_cycle := 29659\<rparr>)
   \<and> addr_latch (write_PPUADDR 7 (zeroed_ppu\<lparr>master_cycle := 29659\<rparr>)) = 1
   \<and> addr_latch (write_PPUSCROLL 7 (zeroed_ppu\<lparr>master_cycle := 29659\<rparr>)) = 1
   \<and> addr_latch (snd (read_PPUSTATUS (zeroed_ppu\<lparr>master_cycle := 29659\<rparr>))) = 0
   \<and> addr_latch (write_PPUADDR 7 (write_PPUSCROLL 9 (zeroed_ppu\<lparr>master_cycle := 29659\<rparr>))) = 0
   \<and> ppu_addr (write_PPUADDR 7 (write_PPUSCROLL 9 (zeroed_ppu\<lparr>master_cycle := 29659\<rparr>))) = 7
   \<and> write_PPUDATA 7 (zeroed_ppu\<lparr>master_cycle := 29659\<rparr>)
       = Some (zeroed_ppu\<lparr>master_cycle := 29659, latch := 7, vram := (\<lambda>_. 0)(0 := 7)\<rparr>)
   \<and> addr_latch (zeroed_ppu\<lparr>master_cycle := 29659, latch := 7, vram := (\<lambda>_. 0)(0 := 7)\<rparr>)
       \<in> {0, 1}
   \<and> read_PPUDATA (zeroed_ppu\<lparr>master_cycle := 29659\<rparr>)
       = Some (0, zeroed_ppu\<lparr>master_cycle := 29659\<rparr>)
   \<and> addr_latch (zeroed_ppu\<lparr>master_cycle := 29659\<rparr>) \<in> {0, 1}
   \<and> addr_latch (write_OAMDMA (\<lambda>a. ucast a) 7 (zeroed_ppu\<lparr>master_cycle := 29659\<rparr>))
       \<in> {0, 1}
   \<and> addr_latch zeroed_ppu \<in> {0, 1}
   \<and> \<not> is_ready zeroed_ppu
   \<and> addr_latch (write_PPUSCROLL 7 zeroed_ppu) = addr_latch zeroed_ppu"
proof -
  let ?z = "zeroed_ppu\<lparr>master_cycle := 29659\<rparr>"
  let ?t = "zeroed_ppu\<lparr>master_cycle := 29659, latch := 7, vram := (\<lambda>_. 0)(0 := 7)\<rparr>"
  have l: "addr_latch ?z \<in> {0, 1}" and l0: "addr_latch ?z = 0"
    and l': "addr_latch zeroed_ppu \<in> {0, 1}"
    by (simp_all add: zeroed_ppu_def)
  have r: "is_ready ?z" and n: "\<not> is_ready zeroed_ppu"
    by (simp_all add: is_ready_def zeroed_ppu_def)
  have u: "\<not> protect_register ?z"
    by (simp add: zeroed_ppu_def)
  have wd: "write_PPUDATA 7 ?z = Some ?t"
    by (simp add: write_PPUDATA_eq write_latch_def redirect_addr_def PPU_VRAM_SIZE_def
        zeroed_ppu_def)
  have rd: "read_PPUDATA ?z = Some (0, ?z)"
    by (simp add: read_PPUDATA_def read_byte_def write_latch_def redirect_addr_def
        PPU_VRAM_SIZE_def zeroed_ppu_def)
  note t = addr_latch_toggle [OF l, of 7 True "\<lambda>a. ucast a" 9]
  note t' = addr_latch_toggle [OF l', of 7 True "\<lambda>a. ucast a" 9]
  have 1: "addr_latch (write_PPUADDR 7 ?z) = 1 - addr_latch ?z"
    using t by (elim conjE) simp
  have 2: "addr_latch (write_PPUSCROLL 7 ?z) = 1 - addr_latch ?z"
    using t r by (elim conjE) simp
  have 3: "addr_latch (snd (read_PPUSTATUS ?z)) = 0"
    using t u by (elim conjE) simp
  have 4: "addr_latch (write_PPUADDR 7 (write_PPUSCROLL 9 ?z)) = addr_latch ?z"
    using t r by (elim conjE) simp
  have 5: "ppu_addr (write_PPUADDR 7 (write_PPUSCROLL 9 ?z)) = (ppu_addr ?z AND 0xff00) OR ucast (7::u8)"
    using t r l0 by (elim conjE) simp
  have 6: "addr_latch ?t \<in> {0, 1}"
    using t wd by (elim conjE) simp
  have 7: "addr_latch ?z \<in> {0, 1}"
    using t rd by (elim conjE) simp
  have 8: "addr_latch (write_PPUSCROLL 7 zeroed_ppu) = addr_latch zeroed_ppu"
    using t' n by (elim conjE) simp
  have 9: "addr_latch (write_OAMDMA (\<lambda>a. ucast a) 7 ?z) \<in> {0, 1}"
    using t by (elim conjE) simp
  have p0: "ppu_addr ?z = 0"
    by (simp add: zeroed_ppu_def)
  from 1 2 4 5 have "addr_latch (write_PPUADDR 7 ?z) = 1"
    "addr_latch (write_PPUSCROLL 7 ?z) = 1"
    "addr_latch (write_PPUADDR 7 (write_PPUSCROLL 9 ?z)) = 0"
    "ppu_addr (write_PPUADDR 7 (write_PPUSCROLL 9 ?z)) = 7"
    by (simp_all add: l0 p0)
  with l r u 3 wd 6 rd 7 9 l' n 8 show ?thesis
    by (intro conjI)
qed

text \<open>
  C6, as stated, fails: before readiness a write to PPUSCROLL does not flip the
  toggle.
\<close>

theorem write_PPUSCROLL_not_ready_no_flip:
  "\<not> is_ready zeroed_ppu \<and> addr_latch zeroed_ppu = 0
   \<and> addr_latch (write_PPUSCROLL 5 zeroed_ppu) = 0"
  by (simp add: write_PPUSCROLL_def is_ready_def zeroed_ppu_def)

subsection \<open>The object attribute memory\<close>

lemma oam_addr_fold_write_OAMDATA:
  "oam_addr (fold write_OAMDATA vs s) = oam_addr s + of_nat (length vs)"
  by (induction vs arbitrary: s) (simp_all add: write_OAMDATA_eq)

lemma of_nat_u8_nonzero:
  assumes "0 < n" and "n < 256"
  shows "(of_nat n :: u8) \<noteq> 0"
proof
  assume "(of_nat n :: u8) = 0"
  then have "unat (of_nat n :: u8) = 0"
    by simp
  then have "n mod 256 = 0"
    by (simp add: unat_of_nat)
  with assms show False
    by simp
qed

text \<open>
  C7. \<open>write_OAMDATA v\<close> stores \<open>v\<close> in OAM at the current OAM address and then adds
  one to the address modulo 256; \<open>read_OAMDATA\<close> returns the OAM byte at the current
  address and changes neither the address nor OAM. So 256 writes in a row, whatever
  the values, bring the OAM address back to where it started, and no smaller positive
  number of writes does.
\<close>

theorem oamdata_access:
  "oam (write_OAMDATA v s) = (oam s)(oam_addr s := v)
   \<and> oam_addr (write_OAMDATA v s) = oam_addr s + 1
   \<and> unat (oam_addr (write_OAMDATA v s)) = (unat (oam_addr s) + 1) mod 256
   \<and> fst (read_OAMDATA s) = oam s (oam_addr s)
   \<and> oam_addr (snd (read_OAMDATA s)) = oam_addr s
   \<and> oam (snd (read_OAMDATA s)) = oam s
   \<and> (length vs = 256 \<longrightarrow> oam_addr (fold write_OAMDATA vs s) = oam_addr s)
   \<and> (vs \<noteq> [] \<and> length vs < 256 \<longrightarrow> oam_addr (fold write_OAMDATA vs s) \<noteq> oam_addr s)"
proof -
  have w: "oam (write_OAMDATA v s) = (oam s)(oam_addr s := v)"
    "oam_addr (write_OAMDATA v s) = oam_addr s + 1"
    by (simp_all add: write_OAMDATA_eq write_latch_def)
  have m: "unat (oam_addr (write_OAMDATA v s)) = (unat (oam_addr s) + 1) mod 256"
    by (simp add: w unat_word_ariths)
  have rd: "fst (read_OAMDATA s) = oam s (oam_addr s)"
    "oam_addr (snd (read_OAMDATA s)) = oam_addr s" "oam (snd (read_OAMDATA s)) = oam s"
    by (simp_all add: read_OAMDATA_def Let_def write_latch_def)
  have full: "length vs = 256 \<longrightarrow> oam_addr (fold write_OAMDATA vs s) = oam_addr s"
    by (simp add: oam_addr_fold_write_OAMDATA)
  have less: "vs \<noteq> [] \<and> length vs < 256 \<longrightarrow> oam_addr (fold write_OAMDATA vs s) \<noteq> oam_addr s"
    using of_nat_u8_nonzero [of "length vs"] by (simp add: oam_addr_fold_write_OAMDATA)
  from w m rd full less show ?thesis
    by (intro conjI)
qed

theorem oamdata_access_witness:
  "length (replicate 256 (0x55::u8)) = 256
   \<and> oam_addr (fold write_OAMDATA (replicate 256 0x55) (zeroed_ppu\<lparr>oam_addr := 0x10\<rparr>))
       = oam_addr (zeroed_ppu\<lparr>oam_addr := 0x10\<rparr>)
   \<and> [1, 2, 3 :: u8] \<noteq> [] \<and> length [1, 2, 3 :: u8] < 256
   \<and> oam_addr (fold write_OAMDATA [1, 2, 3] (zeroed_ppu\<lparr>oam_addr := 0x10\<rparr>))
       \<noteq> oam_addr (zeroed_ppu\<lparr>oam_addr := 0x10\<rparr>)
   \<and> oam_addr (write_OAMDATA 9 (zeroed_ppu\<lparr>oam_addr := 0xff\<rparr>)) = 0"
proof -
  let ?z = "zeroed_ppu\<lparr>oam_addr := 0x10\<rparr>"
  have a: "length (replicate 256 (0x55::u8)) = 256"
    and b: "[1, 2, 3 :: u8] \<noteq> [] \<and> length [1, 2, 3 :: u8] < 256"
    by simp_all
  have 1: "oam_addr (fold write_OAMDATA (replicate 256 0x55) ?z) = oam_addr ?z"
    using oamdata_access [of _ ?z "replicate 256 0x55"] a by blast
  have 2: "oam_addr (fold write_OAMDATA [1, 2, 3] ?z) \<noteq> oam_addr ?z"
    using oamdata_access [of _ ?z "[1, 2, 3]"] b by blast
  have "oam_addr (write_OAMDATA 9 (zeroed_ppu\<lparr>oam_addr := 0xff\<rparr>))
      = oam_addr (zeroed_ppu\<lparr>oam_addr := 0xff\<rparr>) + 1"
    using oamdata_access [of 9 "zeroed_ppu\<lparr>oam_addr := 0xff\<rparr>"] by blast
  then have 3: "oam_addr (write_OAMDATA 9 (zeroed_ppu\<lparr>oam_addr := 0xff\<rparr>)) = 0"
    by simp
  from a 1 b 2 3 show ?thesis
    by (intro conjI) simp_all
qed

subsection \<open>The palette lookup\<close>

lemma get_palette_color_backdrop:
  "get_palette_color is_background idx s = read_byte 0x3f00 s"
  by (simp add: get_palette_color_def Let_def)

text \<open>
  C8 does not hold of the code. For index 0 the lookup reads entry \<open>0x3f00\<close>, as
  claimed. For a non-zero index the address \<open>(0x3f00 or 0x3f10) | index\<close> is
  computed into \<open>palette_addr\<close> and then not used: the function reads \<open>0x3f00\<close>
  again. With 0 stored at \<open>0x3f00\<close> and 5 at \<open>0x3f01\<close>, the lookup of background
  index 1 returns 0, while the entry at the computed address holds 5.
\<close>

theorem get_palette_color_ignores_index:
  "get_palette_color True 1 (zeroed_ppu\<lparr>vram := (\<lambda>_. 0)(0x3f01 := 5)\<rparr>) = Some 0
   \<and> read_byte (0x3f00 OR ucast (1::u8)) (zeroed_ppu\<lparr>vram := (\<lambda>_. 0)(0x3f01 := 5)\<rparr>)
       = Some 5
   \<and> get_palette_color True 0 (zeroed_ppu\<lparr>vram := (\<lambda>_. 0)(0x3f01 := 5)\<rparr>)
       = read_byte 0x3f00 (zeroed_ppu\<lparr>vram := (\<lambda>_. 0)(0x3f01 := 5)\<rparr>)"
  by (simp add: get_palette_color_def Let_def read_byte_def redirect_addr_def
      PPU_VRAM_SIZE_def zeroed_ppu_def)

end
